theory Spec2Isabelle
  imports Complex_Main "HOL-Library.AList"
begin

section \<open>Data model (types/workflow.ts)\<close>

text \<open>
  Strings are lists of 8-bit characters; a JavaScript string whose code units all lie
  below 256 is modelled exactly, and \<open>length\<close> is the \<open>.length\<close> of the source.
  A JavaScript \<open>number\<close> is modelled by the rational it denotes.  An optional
  property (\<open>source?: string\<close>) and a nullable one (\<open>string | null\<close>) are an
  \<open>option\<close>.
\<close>

datatype Provider = openai | anthropic | google

record RawInput =
  content :: string
  source :: "string option"
  customer_id :: "string option"
  metadata :: "(string \<times> string) list option"

datatype Language = en | es | fr | de | other_language

datatype PIIType = email | phone | ssn | credit_card | name | address

datatype Persona = executive | technical | business_user | procurement

record ValueProposition =
  headline :: string
  problem :: string
  solution :: string
  differentiation :: string
  quantified_value :: "string option"
  call_to_action :: string
  persona :: Persona
  key_talking_points :: "string list"
  generated_at :: string

record PIIDetection =
  pii_type :: PIIType
  pii_value :: string
  pii_confidence :: rat
  location :: "nat \<times> nat"

record NormalizedInput =
  normalized_content :: string
  language :: Language
  detected_pii :: "PIIDetection list"
  has_pii :: bool
  cleaned_content :: string
  word_count :: nat
  processed_at :: string

record ExtractedData =
  problem_statement :: string
  current_solution :: "string option"
  desired_outcome :: string
  pain_points :: "string list"
  value_drivers :: "string list"
  stakeholders :: "string list"
  timeline :: "string option"
  budget_signals :: "string option"
  confidence_score :: rat

record ClaimVerification =
  claim :: string
  supported_by_input :: bool
  evidence :: "string option"
  confidence :: rat

record SelfCheckResult =
  verifications :: "ClaimVerification list"
  overall_accuracy :: rat
  hallucination_risk :: rat
  approved :: bool
  rejection_reason :: "string option"

record WorkflowResult =
  run_id :: string
  value_proposition :: ValueProposition
  normalized_input :: NormalizedInput
  extracted_data :: ExtractedData
  self_check :: SelfCheckResult
  total_latency_ms :: rat
  total_cost_usd :: rat
  provider_used :: string
  model_used :: string
  success :: bool
  error :: "string option"

text \<open>
  \<open>ParallelWorkflowResult = Record<Provider, WorkflowResult>\<close>: one entry per requested
  provider, in request order.
\<close>

type_synonym ParallelWorkflowResult = "(Provider \<times> WorkflowResult) list"

section \<open>RawInput validation (components/workflow/steps/input-step.tsx)\<close>

text \<open>
  The form values of the input step and the schema they are resolved against:
  \<^verbatim>\<open>
  const inputSchema = z.object({
    content: z.string().min(10, 'Content must be at least 10 characters'),
    source: z.string().optional(),
    customer_id: z.string().optional(),
  });
  \<close>
  Parsing either yields the values unchanged or a list of issues.  With values that are
  already strings only the \<open>min(10)\<close> check on \<open>content\<close> can fail; it compares the
  length of the string as typed.
\<close>

record InputFormValues =
  form_content :: string
  form_source :: "string option"
  form_customer_id :: "string option"

record issue =
  path :: "string list"
  minimum :: nat
  message :: string

definition content_too_short :: issue where
  "content_too_short =
     \<lparr>path = [''content''], minimum = 10,
      message = ''Content must be at least 10 characters''\<rparr>"

definition inputSchema :: "InputFormValues \<Rightarrow> issue list + InputFormValues" where
  "inputSchema v =
     (if length (form_content v) < 10 then Inl [content_too_short] else Inr v)"

text \<open>
  \<open>String.prototype.trim\<close>, which the claim about validation speaks of (the schema itself
  never calls it): white space and line terminators are removed from both ends.  Among
  the code units below 256 these are tab, line feed, vertical tab, form feed, carriage
  return, space and no-break space.
\<close>

definition js_whitespace :: "char \<Rightarrow> bool" where
  "js_whitespace c = (of_char c \<in> {9, 10, 11, 12, 13, 32, 160 :: nat})"

definition trim :: "string \<Rightarrow> string" where
  "trim s = rev (dropWhile js_whitespace (rev (dropWhile js_whitespace s)))"

section \<open>Parallel comparison: the recommended provider\<close>

text \<open>
  Modelled from the spec: the aggregator that ranks the entries of a
  \<open>ParallelWorkflowResult\<close> is missing from the sources at hand, which hold only the
  hook that issues the parallel request and the result type (the README lists the
  provider comparison view among the future enhancements).  The spec's words: among
  providers with \<open>approved == true\<close>, rank by ascending \<open>total_cost_usd\<close>,
  tie-broken by ascending \<open>total_latency_ms\<close>; if zero providers are approved, no
  recommendation is produced.  Between two entries equal in both cost and latency,
  on which the spec is silent, the one requested first is kept.
\<close>

definition ranks_before :: "WorkflowResult \<Rightarrow> WorkflowResult \<Rightarrow> bool" where
  "ranks_before a b =
     (total_cost_usd a < total_cost_usd b \<or>
      (total_cost_usd a = total_cost_usd b \<and> total_latency_ms a < total_latency_ms b))"

fun pick_best :: "Provider \<times> WorkflowResult \<Rightarrow> ParallelWorkflowResult
    \<Rightarrow> Provider \<times> WorkflowResult" where
  "pick_best best [] = best"
| "pick_best best (x # xs) =
     pick_best (if ranks_before (snd x) (snd best) then x else best) xs"

definition is_approved :: "Provider \<times> WorkflowResult \<Rightarrow> bool" where
  "is_approved e = approved (self_check (snd e))"

definition recommend :: "ParallelWorkflowResult \<Rightarrow> Provider option" where
  "recommend r =
     (case filter is_approved r of
        [] \<Rightarrow> None
      | x # xs \<Rightarrow> Some (fst (pick_best x xs)))"

text \<open>A provider's entry with the given cost, latency and self-check verdict.\<close>

definition sample_result :: "string \<Rightarrow> rat \<Rightarrow> rat \<Rightarrow> bool \<Rightarrow> WorkflowResult" where
  "sample_result p cost latency ok =
     \<lparr>run_id = ''a1b2c3d4-e5f6-7890-abcd-ef1234567890'',
      value_proposition =
        \<lparr>headline = ''Automate data entry'', problem = ''Manual data entry'',
         solution = ''Automation'', differentiation = ''Accuracy'',
         quantified_value = None, call_to_action = ''Book a demo'',
         persona = business_user,
         key_talking_points = [''Saves time'', ''Fewer errors'', ''Scales''],
         generated_at = ''2026-01-12T10:00:00Z''\<rparr>,
      normalized_input =
        \<lparr>normalized_content = ''Customer wants to automate data entry'', language = en,
         detected_pii = [], has_pii = False,
         cleaned_content = ''Customer wants to automate data entry'', word_count = 6,
         processed_at = ''2026-01-12T10:00:00Z''\<rparr>,
      extracted_data =
        \<lparr>problem_statement = ''Manual data entry'', current_solution = None,
         desired_outcome = ''Automation'', pain_points = [''Slow''],
         value_drivers = [''Speed''], stakeholders = [], timeline = None,
         budget_signals = None, confidence_score = 9 / 10\<rparr>,
      self_check =
        \<lparr>verifications = [], overall_accuracy = (if ok then 95 / 100 else 65 / 100),
         hallucination_risk = (if ok then 5 / 100 else 42 / 100), approved = ok,
         rejection_reason =
           (if ok then None
            else Some ''Overall accuracy too low (0.65 < 0.7 threshold)'')\<rparr>,
      total_latency_ms = latency, total_cost_usd = cost, provider_used = p,
      model_used = ''default'', success = ok,
      error = (if ok then None else Some ''Self-check rejected workflow'')\<rparr>"

definition three_providers :: "bool \<Rightarrow> bool \<Rightarrow> bool \<Rightarrow> ParallelWorkflowResult" where
  "three_providers o_ok a_ok g_ok =
     [(openai, sample_result ''openai'' (15 / 1000) 4000 o_ok),
      (anthropic, sample_result ''anthropic'' (8 / 1000) 5500 a_ok),
      (google, sample_result ''google'' (3 / 1000) 3000 g_ok)]"

section \<open>JavaScript values\<close>

text \<open>
  A parsed JSON document.  An object is the list of its own properties (keys distinct,
  as \<open>JSON.parse\<close> leaves them); a number is a finite one, written as a rational (see
  \<open>Number_toString\<close> below).
\<close>

datatype json =
    JNull
  | JBool bool
  | JNumber rat
  | JString string
  | JArray "json list"
  | JObject "(string \<times> json) list"

text \<open>
  What a \<open>throw\<close> or a rejected promise carries: an \<open>APIRequestError\<close> (lib/api.ts,
  lines 6 to 15: message, statusCode, details), any other \<open>Error\<close> instance (the
  \<open>TypeError\<close> of a failed \<open>fetch\<close>, the \<open>SyntaxError\<close> of \<open>response.json()\<close>), or a
  thrown value that is no \<open>Error\<close>.
\<close>

datatype js_error =
    APIRequestError (error_message: string) (statusCode: nat) (details: "json option")
  | OtherError (error_message: string)
  | NonError

definition TypeError :: js_error where
  "TypeError = OtherError ''TypeError''"

text \<open>
  A finite JavaScript number is written here as the rational value of the decimal that
  \<open>Number.prototype.toString\<close> prints for it (the shortest decimal that reads back as
  the same double); \<open>NaN\<close> and the infinities are not represented.  The rendering
  follows Number::toString of the language definition for radix 10.  Let the number be
  positive, with the decimal digits \<open>d1 ... dk\<close> (the last one not zero) and the
  exponent \<open>n\<close> for which the number is \<open>0.d1...dk\<close> times ten to the power \<open>n\<close>:
  \<^item> if \<open>k \<le> n \<le> 21\<close>, the digits are followed by \<open>n - k\<close> zeros;
  \<^item> if \<open>0 < n \<le> 21\<close>, a point follows the first \<open>n\<close> digits;
  \<^item> if \<open>-6 < n \<le> 0\<close>, the rendering is \<open>0.\<close>, then \<open>-n\<close> zeros, then the digits;
  \<^item> otherwise it is the first digit, a point and the remaining digits if there are
    any, then \<open>e\<close>, the sign of \<open>n - 1\<close> and the digits of its magnitude.

  Zero prints as \<open>0\<close>, and a negative number as a minus sign and the rendering of its
  magnitude.  So 0.7 prints as \<open>0.7\<close>, 1e20 prints all its 21 digits, 1e21 prints as
  \<open>1e+21\<close>, and 0.0000001 as \<open>1e-7\<close>.
\<close>

definition digit_char :: "nat \<Rightarrow> char" where
  "digit_char d = char_of (48 + d)"

fun digits_of :: "nat \<Rightarrow> string" where
  "digits_of n =
     (if n < 10 then [digit_char n] else digits_of (n div 10) @ [digit_char (n mod 10)])"

declare digits_of.simps [simp del]

text \<open>
  The digits of a number below 1, up to its last digit other than zero (a double has at
  most 17 significant digits; the search stops after 20).
\<close>

fun fraction_digits :: "nat \<Rightarrow> rat \<Rightarrow> string" where
  "fraction_digits 0 f = []"
| "fraction_digits (Suc k) f =
     (if f = 0 then []
      else digit_char (nat \<lfloor>f * 10\<rfloor>) # fraction_digits k (f * 10 - of_int \<lfloor>f * 10\<rfloor>))"

text \<open>
  The exponent \<open>n\<close> of a positive number \<open>a\<close>, the one for which \<open>a\<close> lies between
  ten to the power \<open>n - 1\<close> (included) and ten to the power \<open>n\<close> (excluded): the number
  of digits of the integer part when \<open>a\<close> is at least 1, and below 1 the negated number
  of zeros between the point and the first digit (the smallest positive double has 323
  of them; the count stops at 330).  The significand is the number scaled into the
  interval from 0.1 to 1.
\<close>

primrec leading_zeros :: "nat \<Rightarrow> rat \<Rightarrow> nat" where
  "leading_zeros 0 a = 0"
| "leading_zeros (Suc k) a = (if a * 10 < 1 then Suc (leading_zeros k (a * 10)) else 0)"

definition decimal_exponent :: "rat \<Rightarrow> int" where
  "decimal_exponent a =
     (if 1 \<le> a then int (length (digits_of (nat \<lfloor>a\<rfloor>))) else - int (leading_zeros 330 a))"

definition significand :: "rat \<Rightarrow> rat" where
  "significand a = a * 10 powi (- decimal_exponent a)"

definition positive_toString :: "rat \<Rightarrow> string" where
  "positive_toString a =
     (let n = decimal_exponent a;
          ds = fraction_digits 20 (significand a);
          k = int (length ds)
      in if k \<le> n \<and> n \<le> 21 then ds @ replicate (nat (n - k)) CHR ''0''
         else if 0 < n \<and> n \<le> 21 then take (nat n) ds @ ''.'' @ drop (nat n) ds
         else if - 6 < n \<and> n \<le> 0 then ''0.'' @ replicate (nat (- n)) CHR ''0'' @ ds
         else (if k = 1 then ds else take 1 ds @ ''.'' @ drop 1 ds) @ ''e'' @
              (if 0 \<le> n - 1 then ''+'' else ''-'') @ digits_of (nat \<bar>n - 1\<bar>))"

definition Number_toString :: "rat \<Rightarrow> string" where
  "Number_toString q =
     (if q = 0 then ''0''
      else if q < 0 then ''-'' @ positive_toString (- q)
      else positive_toString q)"

text \<open>
  Not every rational is the value of a double's rendering: one third has no finite
  decimal, and 9007199254740993 is no double.  A decimal with at most 15 significant
  digits and a magnitude from 1e-301 up to 1e300 is one: converting it to the nearest
  double and printing that double yields the same digits again.  Statements that depend
  on the rendering of a number are made for these numbers and zero.
\<close>

definition js_number :: "rat \<Rightarrow> bool" where
  "js_number q =
     (q = 0 \<or>
      - 300 \<le> decimal_exponent \<bar>q\<bar> \<and> decimal_exponent \<bar>q\<bar> \<le> 300 \<and>
      of_int \<lfloor>significand \<bar>q\<bar> * 10 ^ 15\<rfloor> = significand \<bar>q\<bar> * 10 ^ 15)"

text \<open>
  Reading a property of a parsed JSON value: \<open>null.k\<close> throws a \<open>TypeError\<close>; an object
  yields its own property or \<open>undefined\<close> (\<open>None\<close>); a boolean, number, string or array
  yields \<open>undefined\<close> for the keys read here (\<open>detail\<close>, \<open>loc\<close>, \<open>msg\<close>), none of
  which is on a prototype.
\<close>

fun get_prop :: "json \<Rightarrow> string \<Rightarrow> js_error + json option" where
  "get_prop JNull k = Inl TypeError"
| "get_prop (JObject fs) k = Inr (map_of fs k)"
| "get_prop j k = Inr None"

text \<open>
  The string conversion of a template literal, and \<open>Array.prototype.join\<close>: \<open>null\<close>
  elements join as the empty string, a nested array as its own join with a comma, a plain
  object as \<open>[object Object]\<close> unless an own \<open>toString\<close> property (never callable in
  parsed JSON) hides the inherited method, in which case the conversion throws.
\<close>

fun ToString :: "json \<Rightarrow> js_error + string"
  and join_from :: "string \<Rightarrow> json list \<Rightarrow> js_error + string" where
  "ToString JNull = Inr ''null''"
| "ToString (JBool b) = Inr (if b then ''true'' else ''false'')"
| "ToString (JNumber q) = Inr (Number_toString q)"
| "ToString (JString s) = Inr s"
| "ToString (JArray xs) = join_from '','' xs"
| "ToString (JObject fs) =
     (if map_of fs ''toString'' = None then Inr ''[object Object]'' else Inl TypeError)"
| "join_from sep [] = Inr []"
| "join_from sep (x # xs) =
     (case (if x = JNull then Inr [] else ToString x) of
        Inl e \<Rightarrow> Inl e
      | Inr s \<Rightarrow>
          (if xs = [] then Inr s
           else case join_from sep xs of Inl e \<Rightarrow> Inl e | Inr r \<Rightarrow> Inr (s @ sep @ r)))"

definition ToString_opt :: "json option \<Rightarrow> js_error + string" where
  "ToString_opt v = (case v of None \<Rightarrow> Inr ''undefined'' | Some j \<Rightarrow> ToString j)"

text \<open>Sequencing of computations that may throw, and \<open>map\<close> with a callback that may.\<close>

definition then_do :: "'e + 'a \<Rightarrow> ('a \<Rightarrow> 'e + 'b) \<Rightarrow> 'e + 'b" where
  "then_do r f = (case r of Inl e \<Rightarrow> Inl e | Inr a \<Rightarrow> f a)"

fun map_result :: "('a \<Rightarrow> 'e + 'b) \<Rightarrow> 'a list \<Rightarrow> 'e + 'b list" where
  "map_result f [] = Inr []"
| "map_result f (x # xs) =
     then_do (f x) (\<lambda>y. then_do (map_result f xs) (\<lambda>ys. Inr (y # ys)))"

fun join_strings :: "string \<Rightarrow> string list \<Rightarrow> string" where
  "join_strings sep [] = []"
| "join_strings sep [x] = x"
| "join_strings sep (x # y # ys) = x @ sep @ join_strings sep (y # ys)"

section \<open>The API request wrapper (lib/api.ts, apiRequest)\<close>

text \<open>
  The error branch of \<open>apiRequest\<close> (lines 42 to 63):
  \<^verbatim>\<open>
  if (!response.ok) {
    let errorMessage = 'API request failed';
    let errorDetails: unknown;
    try {
      const errorData: APIError = await response.json();
      if (typeof errorData.detail === 'string') {
        errorMessage = errorData.detail;
      } else if (Array.isArray(errorData.detail)) {
        errorMessage = errorData.detail
          .map((err) => `${err.loc.join('.')}: ${err.msg}`)
          .join(', ');
        errorDetails = errorData.detail;
      }
    } catch {
      errorMessage = response.statusText || errorMessage;
    }
    throw new APIRequestError(errorMessage, response.status, errorDetails);
  }
  \<close>
  \<open>format_validation_error\<close> is the callback of \<open>map\<close>; \<open>read_detail\<close> is the body of the
  inner \<open>try\<close> after the body has been parsed, returning the message and the details
  or the exception that sends control to the \<open>catch\<close>.
\<close>

definition format_validation_error :: "json \<Rightarrow> js_error + string" where
  "format_validation_error err =
     then_do (get_prop err ''loc'') (\<lambda>l.
       then_do (case l of Some (JArray xs) \<Rightarrow> join_from ''.'' xs | _ \<Rightarrow> Inl TypeError) (\<lambda>place.
         then_do (get_prop err ''msg'') (\<lambda>m.
           then_do (ToString_opt m) (\<lambda>what.
             Inr (place @ '': '' @ what)))))"

definition generic_message :: string where
  "generic_message = ''API request failed''"

definition read_detail :: "json \<Rightarrow> js_error + string \<times> json option" where
  "read_detail errorData =
     then_do (get_prop errorData ''detail'') (\<lambda>d.
       case d of
         Some (JString s) \<Rightarrow> Inr (s, None)
       | Some (JArray errs) \<Rightarrow>
           then_do (map_result format_validation_error errs) (\<lambda>lines.
             Inr (join_strings '', '' lines, Some (JArray errs)))
       | _ \<Rightarrow> Inr (generic_message, None))"

text \<open>
  The current session of the auth collaborator (only the token is read) and the response
  of \<open>fetch\<close>: its status, its status text and what \<open>response.json()\<close> settles with.
  \<open>response.ok\<close> is true exactly for the statuses 200 to 299.
\<close>

record Session =
  access_token :: string

record Response =
  status :: nat
  statusText :: string
  json_result :: "js_error + json"

definition ok :: "Response \<Rightarrow> bool" where
  "ok r = (200 \<le> status r \<and> status r \<le> 299)"

definition error_of_response :: "Response \<Rightarrow> js_error" where
  "error_of_response r =
     (let fallback = (if statusText r = [] then generic_message else statusText r);
          (errorMessage, errorDetails) =
            (case then_do (json_result r) read_detail of
               Inl e \<Rightarrow> (fallback, None)
             | Inr md \<Rightarrow> md)
      in APIRequestError errorMessage (status r) errorDetails)"

text \<open>
  The \<open>options\<close> argument (a \<open>RequestInit\<close>: method, body, headers; the body is the JSON
  document that \<open>JSON.stringify\<close> writes), and the request that reaches \<open>fetch\<close>.  Headers
  are a plain object: a list of properties in insertion order, where assigning an
  existing key replaces its value in place.
\<close>

record RequestInit =
  http_method :: "string option"
  body :: "json option"
  init_headers :: "(string \<times> string) list option"

record Request =
  url :: string
  request_method :: "string option"
  request_body :: "json option"
  headers :: "(string \<times> string) list"

text \<open>
  The collaborators of one call: the configured base URL, what
  \<open>supabase.auth.getSession()\<close> settles with (a thrown error, or the session or
  \<open>null\<close>), and what \<open>fetch\<close> settles with for a given request (a rejection when no
  response is received, or the response).  The calls made to them are logged in order.
\<close>

datatype effect = GetSession | Fetch Request

record collaborators =
  NEXT_PUBLIC_API_URL :: "string option"
  getSession :: "js_error + Session option"
  fetch :: "Request \<Rightarrow> js_error + Response"

definition API_URL :: "collaborators \<Rightarrow> string" where
  "API_URL c =
     (case NEXT_PUBLIC_API_URL c of
        None \<Rightarrow> ''http://localhost:8000''
      | Some u \<Rightarrow> if u = [] then ''http://localhost:8000'' else u)"

text \<open>
  Lines 27 to 35: \<open>{'Content-Type': 'application/json', ...options.headers}\<close>, then
  \<open>headers['Authorization']\<close> is set when \<open>session?.access_token\<close> is truthy (a session
  with a non-empty token).
\<close>

definition assign_all ::
  "(string \<times> string) list \<Rightarrow> (string \<times> string) list \<Rightarrow> (string \<times> string) list" where
  "assign_all props target = foldl (\<lambda>h kv. AList.update (fst kv) (snd kv) h) target props"

definition request_headers :: "Session option \<Rightarrow> RequestInit \<Rightarrow> (string \<times> string) list" where
  "request_headers session options =
     (let h = assign_all (case init_headers options of None \<Rightarrow> [] | Some hs \<Rightarrow> hs)
                [(''Content-Type'', ''application/json'')]
      in case session of
           None \<Rightarrow> h
         | Some s \<Rightarrow>
             if access_token s = [] then h
             else AList.update ''Authorization'' (''Bearer '' @ access_token s) h)"

text \<open>
  The outer \<open>catch\<close> (lines 66 to 76): an \<open>APIRequestError\<close> is rethrown; anything else
  becomes an \<open>APIRequestError\<close> with status code 0, carrying the error's message or
  \<open>'Network error'\<close>.
\<close>

definition on_catch :: "js_error \<Rightarrow> js_error" where
  "on_catch e =
     (case e of
        APIRequestError m s d \<Rightarrow> e
      | OtherError m \<Rightarrow> APIRequestError m 0 None
      | NonError \<Rightarrow> APIRequestError ''Network error'' 0 None)"

text \<open>
  \<open>apiRequest\<close>: the session is awaited, then \<open>fetch\<close>; both are inside the \<open>try\<close>.  On a
  response that is ok the function ends with \<open>return response.json()\<close>: the promise is
  returned without being awaited, so its rejection settles the caller's promise directly
  and does not pass through the \<open>catch\<close>.
\<close>

definition build_request ::
  "collaborators \<Rightarrow> Session option \<Rightarrow> string \<Rightarrow> RequestInit \<Rightarrow> Request" where
  "build_request c session endpoint options =
     \<lparr>url = API_URL c @ endpoint, request_method = http_method options,
      request_body = body options, headers = request_headers session options\<rparr>"

definition apiRequest ::
  "collaborators \<Rightarrow> string \<Rightarrow> RequestInit \<Rightarrow> effect list \<times> (js_error + json)" where
  "apiRequest c endpoint options =
     (case getSession c of
        Inl e \<Rightarrow> ([GetSession], Inl (on_catch e))
      | Inr session \<Rightarrow>
          (let request = build_request c session endpoint options
           in case fetch c request of
                Inl e \<Rightarrow> ([GetSession, Fetch request], Inl (on_catch e))
              | Inr response \<Rightarrow>
                  if \<not> ok response
                  then ([GetSession, Fetch request], Inl (on_catch (error_of_response response)))
                  else ([GetSession, Fetch request], json_result response)))"

text \<open>
  The declared shape of an error body (types/api.ts): \<open>detail\<close> is a string or an
  array of validation errors, each with a location path of strings and numbers, a
  message and a type.  \<open>ValidationError_json\<close> is the parsed JSON of such an entry,
  \<open>validation_line\<close> the text the client is to show for it: the elements of the path,
  a number in the rendering of \<open>Number.prototype.toString\<close>, joined with a dot.
\<close>

datatype loc_part = LocName string | LocIndex rat

record ValidationError =
  loc :: "loc_part list"
  msg :: string
  error_type :: string
  ctx :: "(string \<times> json) list option"

definition loc_part_json :: "loc_part \<Rightarrow> json" where
  "loc_part_json p = (case p of LocName s \<Rightarrow> JString s | LocIndex n \<Rightarrow> JNumber n)"

definition loc_part_str :: "loc_part \<Rightarrow> string" where
  "loc_part_str p = (case p of LocName s \<Rightarrow> s | LocIndex n \<Rightarrow> Number_toString n)"

definition ValidationError_json :: "ValidationError \<Rightarrow> json" where
  "ValidationError_json e =
     JObject ([(''loc'', JArray (map loc_part_json (loc e))),
               (''msg'', JString (msg e)),
               (''type'', JString (error_type e))] @
              (case ctx e of None \<Rightarrow> [] | Some c \<Rightarrow> [(''ctx'', JObject c)]))"

definition validation_line :: "ValidationError \<Rightarrow> string" where
  "validation_line e = join_strings ''.'' (map loc_part_str (loc e)) @ '': '' @ msg e"

text \<open>
  The entries whose location numbers satisfy \<open>js_number\<close> (list indices such as 0, 1
  and 2 do).
\<close>

definition loc_part_representable :: "loc_part \<Rightarrow> bool" where
  "loc_part_representable p = (case p of LocName s \<Rightarrow> True | LocIndex n \<Rightarrow> js_number n)"

definition locations_representable :: "ValidationError list \<Rightarrow> bool" where
  "locations_representable vs = list_all (\<lambda>v. list_all loc_part_representable (loc v)) vs"

text \<open>Collaborators with a signed-in session whose every request is answered by \<open>r\<close>.\<close>

definition server_replies :: "Response \<Rightarrow> collaborators" where
  "server_replies r =
     \<lparr>NEXT_PUBLIC_API_URL = None,
      getSession = Inr (Some \<lparr>access_token = ''token-123''\<rparr>),
      fetch = (\<lambda>request. Inr r)\<rparr>"

definition sample_validation_errors :: "ValidationError list" where
  "sample_validation_errors =
     [\<lparr>loc = [LocName ''body'', LocName ''content''],
       msg = ''ensure this value has at least 10 characters'',
       error_type = ''value_error.any_str.min_length'', ctx = None\<rparr>,
      \<lparr>loc = [LocName ''query'', LocName ''providers'', LocIndex 2],
       msg = ''unexpected value'', error_type = ''type_error.enum'', ctx = None\<rparr>]"

text \<open>
  The caller passes no \<open>Authorization\<close> header of its own (the hooks of this client pass
  a method and a body only).
\<close>

definition no_caller_authorization :: "RequestInit \<Rightarrow> bool" where
  "no_caller_authorization options =
     (case init_headers options of None \<Rightarrow> True | Some hs \<Rightarrow> map_of hs ''Authorization'' = None)"

text \<open>
  A server that answers 401 to a request without an \<open>Authorization\<close> header and 200
  otherwise; a client without network; and the options of a POST.
\<close>

definition guarded_server :: "Session option \<Rightarrow> collaborators" where
  "guarded_server session =
     \<lparr>NEXT_PUBLIC_API_URL = Some ''https://api.agentops.studio'',
      getSession = Inr session,
      fetch = (\<lambda>request.
        if map_of (headers request) ''Authorization'' = None
        then Inr \<lparr>status = 401, statusText = ''Unauthorized'',
                  json_result = Inr (JObject [(''detail'', JString ''Not authenticated'')])\<rparr>
        else Inr \<lparr>status = 200, statusText = ''OK'', json_result = Inr (JObject [])\<rparr>)\<rparr>"

definition offline :: collaborators where
  "offline =
     \<lparr>NEXT_PUBLIC_API_URL = None,
      getSession = Inr (Some \<lparr>access_token = ''token-123''\<rparr>),
      fetch = (\<lambda>request. Inl (OtherError ''Failed to fetch''))\<rparr>"

definition post_options :: RequestInit where
  "post_options = \<lparr>http_method = Some ''POST'', body = Some (JObject []), init_headers = None\<rparr>"

section \<open>The workflow wizard (components/workflow)\<close>

text \<open>
  The state of \<open>WorkflowWizard\<close> (workflow-wizard.tsx, lines 21 to 30): the current
  step, the form data and the result.  While the processing step is mounted the state
  of its mutation (\<open>executeMutation\<close>: idle, pending with the variables it was started
  with, success with the data, or error) belongs to the session as well; it decides which
  controls are enabled.  The toasts shown so far are kept in order.
\<close>

datatype WorkflowStep = step_input | step_config | step_processing | step_results

record WorkflowFormData =
  input :: RawInput
  provider :: Provider
  model :: "string option"
  temperature :: rat

datatype mutation_status =
    idle
  | pending WorkflowFormData
  | success_with WorkflowResult
  | error_with js_error

datatype toast = toast_success string | toast_error string

record wizard =
  step :: WorkflowStep
  formData :: WorkflowFormData
  result :: "WorkflowResult option"
  executeMutation :: mutation_status
  toasts :: "toast list"

definition initial_formData :: WorkflowFormData where
  "initial_formData =
     \<lparr>input = \<lparr>content = [], source = Some ''manual'', customer_id = None, metadata = None\<rparr>,
      provider = google, model = None, temperature = 7 / 10\<rparr>"

definition initial :: wizard where
  "initial =
     \<lparr>step = step_input, formData = initial_formData, result = None,
      executeMutation = idle, toasts = []\<rparr>"

text \<open>
  What the user and the network can do to a session.  \<open>SubmitInput\<close> is the submit
  button of the input step with the values of its form; \<open>GenerateWorkflow\<close> the button
  of the config step with the provider and temperature chosen there; \<open>Settled\<close> the
  settling of the pending mutation, with the error thrown by the client or the data it
  returned; \<open>ClickCancel\<close> and \<open>ClickGoBack\<close> the two buttons of the processing step;
  \<open>ClickCreateNew\<close> the button of the results step.
\<close>

datatype event =
    SubmitInput InputFormValues
  | ClickBack
  | GenerateWorkflow Provider rat
  | Settled "js_error + WorkflowResult"
  | ClickCancel
  | ClickGoBack
  | ClickCreateNew

text \<open>\<open>a || b\<close> on an optional string: \<open>b\<close> when \<open>a\<close> is undefined, null or empty.\<close>

definition or_else :: "string option \<Rightarrow> string \<Rightarrow> string" where
  "or_else a b = (case a of None \<Rightarrow> b | Some s \<Rightarrow> if s = [] then b else s)"

definition truthy :: "string option \<Rightarrow> string option" where
  "truthy a = (case a of None \<Rightarrow> None | Some s \<Rightarrow> if s = [] then None else Some s)"

text \<open>
  \<open>InputStep.onSubmit\<close> (input-step.tsx, lines 54 to 60), called by the form only when
  the schema accepts the values.
\<close>

definition onSubmit :: "InputFormValues \<Rightarrow> RawInput" where
  "onSubmit values =
     \<lparr>content = form_content values,
      source = Some (or_else (form_source values) ''manual''),
      customer_id = truthy (form_customer_id values),
      metadata = None\<rparr>"

text \<open>
  The message of a thrown value, as \<open>error.message\<close> reads it (undefined on a value that
  is no error object).
\<close>

definition message_of :: "js_error \<Rightarrow> string option" where
  "message_of e = (case e of NonError \<Rightarrow> None | _ \<Rightarrow> Some (error_message e))"

text \<open>
  The callbacks the wizard hands to the processing step (workflow-wizard.tsx, lines 88
  to 97).  Leaving the processing step unmounts it, and its mutation state with it.
\<close>

definition onComplete :: "WorkflowResult \<Rightarrow> wizard \<Rightarrow> wizard" where
  "onComplete workflowResult w =
     w\<lparr>result := Some workflowResult, step := step_results, executeMutation := idle\<rparr>"

definition onCancel :: "wizard \<Rightarrow> wizard" where
  "onCancel w = w\<lparr>step := step_config, executeMutation := idle\<rparr>"

text \<open>
  The callbacks of \<open>mutate\<close> in the processing step (processing-step.tsx, lines 30
  to 42):
  \<^verbatim>\<open>
  onSuccess: (data) => {
    if (data.success) {
      toast.success('Workflow completed successfully!');
      onComplete(data);
    } else {
      toast.error(data.error || 'Workflow failed');
    }
  },
  onError: (error: any) => {
    toast.error(error.message || 'Failed to execute workflow');
  },
  \<close>
\<close>

definition onSuccess :: "WorkflowResult \<Rightarrow> wizard \<Rightarrow> wizard" where
  "onSuccess data w =
     (if success data
      then onComplete data
             (w\<lparr>toasts := toasts w @ [toast_success ''Workflow completed successfully!'']\<rparr>)
      else w\<lparr>toasts := toasts w @ [toast_error (or_else (error data) ''Workflow failed'')]\<rparr>)"

definition onError :: "js_error \<Rightarrow> wizard \<Rightarrow> wizard" where
  "onError e w =
     w\<lparr>toasts := toasts w @ [toast_error (or_else (message_of e) ''Failed to execute workflow'')]\<rparr>"

text \<open>
  One event.  An event whose control is not rendered in the current step, or is
  disabled, changes nothing: the Cancel button is disabled while the mutation is pending
  (\<open>disabled={executeMutation.isPending}\<close>), the Go Back button exists only in the error
  state, the results step is rendered only with a result, and a mutation can settle only
  while it is pending.  Entering the processing step mounts it, and its effect starts the
  mutation with the form data of that moment.
\<close>

fun handle :: "event \<Rightarrow> wizard \<Rightarrow> wizard" where
  "handle (SubmitInput values) w =
     (if step w \<noteq> step_input then w
      else case inputSchema values of
             Inl issues \<Rightarrow> w
           | Inr v \<Rightarrow> w\<lparr>formData := (formData w)\<lparr>input := onSubmit v\<rparr>, step := step_config\<rparr>)"
| "handle ClickBack w =
     (if step w \<noteq> step_config then w else w\<lparr>step := step_input\<rparr>)"
| "handle (GenerateWorkflow p t) w =
     (if step w \<noteq> step_config then w
      else let fd = (formData w)\<lparr>provider := p, temperature := t\<rparr>
           in w\<lparr>formData := fd, step := step_processing, executeMutation := pending fd\<rparr>)"
| "handle (Settled outcome) w =
     (if step w \<noteq> step_processing then w
      else case executeMutation w of
             pending variables \<Rightarrow>
               (case outcome of
                  Inr data \<Rightarrow> onSuccess data (w\<lparr>executeMutation := success_with data\<rparr>)
                | Inl e \<Rightarrow> onError e (w\<lparr>executeMutation := error_with e\<rparr>))
           | _ \<Rightarrow> w)"
| "handle ClickCancel w =
     (if step w \<noteq> step_processing then w
      else case executeMutation w of
             pending variables \<Rightarrow> w
           | _ \<Rightarrow> onCancel w)"
| "handle ClickGoBack w =
     (if step w \<noteq> step_processing then w
      else case executeMutation w of
             error_with e \<Rightarrow> onCancel w
           | _ \<Rightarrow> w)"
| "handle ClickCreateNew w =
     (if step w \<noteq> step_results \<or> result w = None then w
      else w\<lparr>formData := initial_formData, result := None, step := step_input\<rparr>)"

definition run :: "event list \<Rightarrow> wizard \<Rightarrow> wizard" where
  "run events w = foldl (\<lambda>s e. handle e s) w events"

text \<open>What the user sees of the orchestrator: the step, the form data and the result.\<close>

definition visible :: "wizard \<Rightarrow> WorkflowStep \<times> WorkflowFormData \<times> WorkflowResult option" where
  "visible w = (step w, formData w, result w)"

text \<open>A valid input, and two results the remote pipeline may return.\<close>

definition sample_values :: InputFormValues where
  "sample_values =
     \<lparr>form_content = ''Customer wants to automate data entry'',
      form_source = Some ''manual'', form_customer_id = Some []\<rparr>"

definition approved_result :: WorkflowResult where
  "approved_result = sample_result ''google'' (3 / 1000) 3000 True"

definition rejected_result :: WorkflowResult where
  "rejected_result = sample_result ''google'' (3 / 1000) 3000 False"

text \<open>
  Two invariants of a session: a result is held exactly in the results step, and it is a
  successful one; a mutation state other than idle exists only in the processing step.
\<close>

definition results_hold_success :: "wizard \<Rightarrow> bool" where
  "results_hold_success w =
     (case result w of
        None \<Rightarrow> step w \<noteq> step_results
      | Some r \<Rightarrow> step w = step_results \<and> success r)"

definition pending_only_in_processing :: "wizard \<Rightarrow> bool" where
  "pending_only_in_processing w = (step w = step_processing \<or> executeMutation w = idle)"


text \<open>The session after a valid input has been submitted and the workflow started.\<close>

definition in_flight :: wizard where
  "in_flight = run [SubmitInput sample_values, GenerateWorkflow google (7 / 10)] initial"

definition submitted_formData :: WorkflowFormData where
  "submitted_formData =
     \<lparr>input = \<lparr>content = ''Customer wants to automate data entry'',
                source = Some ''manual'', customer_id = None, metadata = None\<rparr>,
      provider = google, model = None, temperature = 7 / 10\<rparr>"

section \<open>Query strings (URLSearchParams)\<close>

text \<open>
  \<open>URLSearchParams\<close> is a list of name-value pairs.  Its \<open>toString\<close> is the
  \<open>application/x-www-form-urlencoded\<close> serializer of the URL standard: each name and
  value is encoded in UTF-8; of the bytes, the ASCII letters and digits and \<open>* - . _\<close>
  stay as they are, a space becomes \<open>+\<close>, and every other byte becomes \<open>%\<close> followed
  by two upper-case hexadecimal digits; a pair is written \<open>name=value\<close> and the pairs are
  joined with \<open>&\<close>.  A code unit below 128 is one byte in UTF-8, one from 128 to 255 is
  two.
\<close>

type_synonym URLSearchParams = "(string \<times> string) list"

definition utf8_encode_char :: "char \<Rightarrow> string" where
  "utf8_encode_char c =
     (let n = of_char c :: nat
      in if n < 128 then [c] else [char_of (192 + n div 64), char_of (128 + n mod 64)])"

definition utf8_encode :: "string \<Rightarrow> string" where
  "utf8_encode s = concat (map utf8_encode_char s)"

definition hex_char :: "nat \<Rightarrow> char" where
  "hex_char d = (if d < 10 then char_of (48 + d) else char_of (55 + d))"

definition unreserved :: "char \<Rightarrow> bool" where
  "unreserved c =
     (let n = of_char c :: nat
      in (48 \<le> n \<and> n \<le> 57) \<or> (65 \<le> n \<and> n \<le> 90) \<or> (97 \<le> n \<and> n \<le> 122) \<or>
         n = 42 \<or> n = 45 \<or> n = 46 \<or> n = 95)"

definition urlencode_byte :: "char \<Rightarrow> string" where
  "urlencode_byte b =
     (if b = CHR '' '' then ''+''
      else if unreserved b then [b]
      else [CHR ''%'', hex_char (of_char b div 16), hex_char (of_char b mod 16)])"

definition urlencode :: "string \<Rightarrow> string" where
  "urlencode s = concat (map urlencode_byte (utf8_encode s))"

definition URLSearchParams_toString :: "URLSearchParams \<Rightarrow> string" where
  "URLSearchParams_toString params =
     join_strings ''&'' (map (\<lambda>(k, v). urlencode k @ ''='' @ urlencode v) params)"










section \<open>The workflow hooks (lib/queries/workflow.ts)\<close>

text \<open>
  The variables of the \<open>useExecuteWorkflow\<close> mutation; \<open>provider\<close> and \<open>temperature\<close>
  take their defaults (\<open>'google'\<close>, \<open>0.7\<close>) when they are undefined, and \<open>model\<close> is
  appended only when it is truthy.  The body is \<open>JSON.stringify(input)\<close>: the properties
  of the input that are defined.
\<close>

record ExecuteVariables =
  arg_input :: RawInput
  arg_provider :: "Provider option"
  arg_model :: "string option"
  arg_temperature :: "rat option"

definition Provider_str :: "Provider \<Rightarrow> string" where
  "Provider_str p = (case p of openai \<Rightarrow> ''openai'' | anthropic \<Rightarrow> ''anthropic'' | google \<Rightarrow> ''google'')"




definition optional_property :: "string \<Rightarrow> string option \<Rightarrow> (string \<times> json) list" where
  "optional_property k v = (case v of None \<Rightarrow> [] | Some s \<Rightarrow> [(k, JString s)])"

definition RawInput_json :: "RawInput \<Rightarrow> json" where
  "RawInput_json i =
     JObject ([(''content'', JString (content i))] @
              optional_property ''source'' (source i) @
              optional_property ''customer_id'' (customer_id i) @
              (case metadata i of
                 None \<Rightarrow> []
               | Some kvs \<Rightarrow> [(''metadata'', JObject (map (\<lambda>(k, v). (k, JString v)) kvs))]))"


definition execute_options :: "ExecuteVariables \<Rightarrow> RequestInit" where
  "execute_options v =
     \<lparr>http_method = Some ''POST'', body = Some (RawInput_json (arg_input v)),
      init_headers = None\<rparr>"


text \<open>
  \<open>useCompareProviders\<close>: one \<open>providers\<close> parameter per provider, by default openai
  and anthropic.
\<close>

definition compare_params :: "Provider list option \<Rightarrow> URLSearchParams" where
  "compare_params ps =
     map (\<lambda>p. (''providers'', Provider_str p))
       (case ps of None \<Rightarrow> [openai, anthropic] | Some l \<Rightarrow> l)"

definition compare_options :: "RawInput \<Rightarrow> RequestInit" where
  "compare_options i =
     \<lparr>http_method = Some ''POST'', body = Some (RawInput_json i), init_headers = None\<rparr>"

definition compareProviders ::
  "collaborators \<Rightarrow> RawInput \<Rightarrow> Provider list option \<Rightarrow> effect list \<times> (js_error + json)" where
  "compareProviders c i ps =
     apiRequest c
       (''/api/v1/workflow/execute-parallel?'' @ URLSearchParams_toString (compare_params ps))
       (compare_options i)"

text \<open>
  The variables the processing step passes to \<open>mutate\<close> (processing-step.tsx, lines 24
  to 29).
\<close>

definition variables_of :: "WorkflowFormData \<Rightarrow> ExecuteVariables" where
  "variables_of fd =
     \<lparr>arg_input = input fd, arg_provider = Some (provider fd), arg_model = model fd,
      arg_temperature = Some (temperature fd)\<rparr>"


















section \<open>Executing the mutation\<close>








section \<open>Properties\<close>

subsection \<open>Validation\<close>

lemma length_trim_le: "length (trim s) \<le> length s"
proof -
  have "length (trim s) \<le> length (dropWhile js_whitespace s)"
    unfolding trim_def by (simp add: length_dropWhile_le order_trans [OF length_dropWhile_le])
  also have "\<dots> \<le> length s"
    by (rule length_dropWhile_le)
  finally show ?thesis .
qed

text \<open>
  C4, as stated, fails: the schema measures the content as typed, not trimmed.  Two
  letters followed by eight spaces have trimmed length 2, and the validator accepts
  them.
\<close>

theorem C4_trimmed_short_accepted:
  "length (trim ''hi        '') = 2 \<and>
   inputSchema \<lparr>form_content = ''hi        '', form_source = Some ''manual'',
                form_customer_id = Some ''''\<rparr>
   = Inr \<lparr>form_content = ''hi        '', form_source = Some ''manual'',
          form_customer_id = Some ''''\<rparr>"
  by (simp add: inputSchema_def trim_def js_whitespace_def)

text \<open>
  C4, amended: the validator is a function of the content's length as typed.  A content
  shorter than 10 characters is rejected with the one issue \<open>content_too_short\<close> (the
  same value for every such content and on every evaluation); any other content is
  accepted unchanged, and that includes every content whose trimmed length is at
  least 10, since trimming never lengthens a string.
\<close>

theorem C4_validator_by_length:
  "inputSchema v =
     (if length (form_content v) < 10 then Inl [content_too_short] else Inr v) \<and>
   minimum content_too_short = 10 \<and>
   path content_too_short = [''content''] \<and>
   message content_too_short = ''Content must be at least 10 characters'' \<and>
   (10 \<le> length (trim (form_content v)) \<longrightarrow> inputSchema v = Inr v)"
proof -
  have "10 \<le> length (trim (form_content v)) \<Longrightarrow> \<not> length (form_content v) < 10"
    using length_trim_le [of "form_content v"] by simp
  then show ?thesis
    by (simp add: inputSchema_def content_too_short_def)
qed

theorem C4_validator_by_length_witness:
  "10 \<le> length (trim ''  Customer wants to automate data entry  '') \<and>
   inputSchema \<lparr>form_content = ''  Customer wants to automate data entry  '',
                form_source = None, form_customer_id = None\<rparr>
   = Inr \<lparr>form_content = ''  Customer wants to automate data entry  '',
          form_source = None, form_customer_id = None\<rparr> \<and>
   inputSchema \<lparr>form_content = ''too short'', form_source = None, form_customer_id = None\<rparr>
   = Inl [content_too_short]"
proof -
  have long: "10 \<le> length (trim ''  Customer wants to automate data entry  '')"
    by (simp add: trim_def js_whitespace_def)
  have short: "length ''too short'' < 10"
    by simp
  show ?thesis
    using long short
      C4_validator_by_length [of "\<lparr>form_content = ''  Customer wants to automate data entry  '',
                form_source = None, form_customer_id = None\<rparr>"]
      C4_validator_by_length [of "\<lparr>form_content = ''too short'', form_source = None,
                form_customer_id = None\<rparr>"]
    by simp
qed

subsection \<open>Recommendation\<close>

lemma pick_best_mem: "pick_best b xs \<in> set (b # xs)"
  by (induction xs arbitrary: b) auto

lemma ranks_before_trans_le:
  "\<not> ranks_before a b \<Longrightarrow> \<not> ranks_before b c \<Longrightarrow> \<not> ranks_before a c"
  by (auto simp: ranks_before_def)

lemma pick_best_le_start: "\<not> ranks_before (snd b) (snd (pick_best b xs))"
proof (induction xs arbitrary: b)
  case Nil
  show ?case by (simp add: ranks_before_def)
next
  case (Cons x xs)
  show ?case
  proof (cases "ranks_before (snd x) (snd b)")
    case True
    have "\<not> ranks_before (snd b) (snd x)"
      using True by (auto simp: ranks_before_def)
    with Cons.IH [of x] True show ?thesis
      by (auto dest: ranks_before_trans_le)
  next
    case False
    with Cons.IH [of b] show ?thesis by simp
  qed
qed

lemma pick_best_least:
  "y \<in> set (b # xs) \<Longrightarrow> \<not> ranks_before (snd y) (snd (pick_best b xs))"
proof (induction xs arbitrary: b)
  case Nil
  then show ?case by (simp add: ranks_before_def)
next
  case (Cons x xs)
  let ?b' = "if ranks_before (snd x) (snd b) then x else b"
  have step: "pick_best b (x # xs) = pick_best ?b' xs" by simp
  have b': "\<not> ranks_before (snd y) (snd ?b')" if "y = b \<or> y = x"
    using that by (auto simp: ranks_before_def)
  from Cons.prems consider "y = b \<or> y = x" | "y \<in> set xs" by auto
  then show ?case
  proof cases
    case 1
    from b' [OF 1] pick_best_le_start [of ?b' xs]
    have "\<not> ranks_before (snd y) (snd (pick_best ?b' xs))"
      by (rule ranks_before_trans_le)
    then show ?thesis unfolding step .
  next
    case 2
    then have "y \<in> set (?b' # xs)" by simp
    from Cons.IH [OF this] show ?thesis unfolding step .
  qed
qed

lemma recommend_None_iff: "recommend r = None \<longleftrightarrow> (\<forall>e \<in> set r. \<not> is_approved e)"
proof -
  have "recommend r = None \<longleftrightarrow> filter is_approved r = []"
    by (simp add: recommend_def split: list.splits)
  then show ?thesis by (simp add: filter_empty_conv)
qed

lemma recommend_Some_least:
  assumes "recommend r = Some p"
  shows "\<exists>w. (p, w) \<in> set r \<and> approved (self_check w) \<and>
           (\<forall>e \<in> set r. is_approved e \<longrightarrow> \<not> ranks_before (snd e) w)"
proof -
  from assms obtain x xs where f: "filter is_approved r = x # xs"
    and p: "p = fst (pick_best x xs)"
    by (auto simp: recommend_def split: list.splits)
  let ?best = "pick_best x xs"
  have "?best \<in> set (filter is_approved r)"
    using pick_best_mem [of x xs] f by simp
  then have mem: "(p, snd ?best) \<in> set r" and ok: "approved (self_check (snd ?best))"
    using p by (auto simp: is_approved_def)
  have "\<not> ranks_before (snd e) (snd ?best)" if "e \<in> set r" "is_approved e" for e
  proof -
    from that have "e \<in> set (filter is_approved r)" by simp
    then have "e \<in> set (x # xs)" unfolding f .
    then show ?thesis by (rule pick_best_least)
  qed
  with mem ok show ?thesis by blast
qed

text \<open>
  C7: no recommendation is produced exactly when no entry is approved; a recommended
  provider has an approved entry that no approved entry ranks before (none is cheaper,
  and none of the same cost is faster), so unapproved entries never influence the
  choice; and on the spec's example (costs openai 0.015, anthropic 0.008, google 0.003)
  the recommendation is google when all are approved, anthropic when google is not
  approved, and none when no provider is approved.
\<close>

theorem C7_recommendation:
  "(recommend r = None \<longleftrightarrow> (\<forall>e \<in> set r. \<not> is_approved e)) \<and>
   (recommend r = Some p \<longrightarrow>
      (\<exists>w. (p, w) \<in> set r \<and> approved (self_check w) \<and>
         (\<forall>e \<in> set r. is_approved e \<longrightarrow> \<not> ranks_before (snd e) w))) \<and>
   recommend (three_providers True True True) = Some google \<and>
   recommend (three_providers True True False) = Some anthropic \<and>
   recommend (three_providers False False False) = None"
proof -
  have ex: "recommend (three_providers True True True) = Some google"
    "recommend (three_providers True True False) = Some anthropic"
    "recommend (three_providers False False False) = None"
    by (simp_all add: recommend_def three_providers_def is_approved_def sample_result_def
        ranks_before_def)
  show ?thesis
    using recommend_None_iff [of r] recommend_Some_least [of r p] ex by blast
qed

theorem C7_recommendation_witness:
  "recommend (three_providers True True False) = Some anthropic \<and>
   (\<exists>w. (anthropic, w) \<in> set (three_providers True True False) \<and>
      approved (self_check w) \<and>
      (\<forall>e \<in> set (three_providers True True False).
         is_approved e \<longrightarrow> \<not> ranks_before (snd e) w)) \<and>
   recommend (three_providers False False False) = None \<and>
   \<not> (\<exists>e. e \<in> set (three_providers False False False) \<and> is_approved e)"
  using C7_recommendation [of "three_providers True True False" anthropic]
    C7_recommendation [of "three_providers False False False" anthropic]
  by blast

subsection \<open>The request wrapper: errors\<close>

lemma join_from_loc:
  "join_from sep (map loc_part_json ps) = Inr (join_strings sep (map loc_part_str ps))"
proof (induction ps)
  case Nil
  show ?case by simp
next
  case (Cons p ps)
  have el: "(if loc_part_json p = JNull then Inr [] else ToString (loc_part_json p))
      = Inr (loc_part_str p)"
    by (cases p) (simp_all add: loc_part_json_def loc_part_str_def)
  show ?case
  proof (cases ps)
    case Nil
    with el show ?thesis by simp
  next
    case (Cons q qs)
    with el Cons.IH show ?thesis by simp
  qed
qed

lemma format_validation_error_typed:
  "format_validation_error (ValidationError_json v) = Inr (validation_line v)"
  by (simp add: format_validation_error_def ValidationError_json_def validation_line_def
      then_do_def join_from_loc ToString_opt_def)

lemma map_result_typed:
  "map_result format_validation_error (map ValidationError_json vs)
   = Inr (map validation_line vs)"
  by (induction vs) (simp_all add: then_do_def format_validation_error_typed)

lemma on_catch_error_of_response: "on_catch (error_of_response r) = error_of_response r"
  by (simp add: error_of_response_def on_catch_def Let_def split: prod.splits)

lemma apiRequest_not_ok:
  assumes "getSession c = Inr session"
    and "fetch c (build_request c session endpoint options) = Inr r"
    and "\<not> ok r"
  shows "apiRequest c endpoint options =
    ([GetSession, Fetch (build_request c session endpoint options)], Inl (error_of_response r))"
  using assms by (simp add: apiRequest_def Let_def on_catch_error_of_response)

lemma error_of_response_shape:
  "\<exists>m d. error_of_response r = APIRequestError m (status r) d"
  by (simp add: error_of_response_def Let_def split: prod.splits)

lemma error_of_response_string:
  "json_result r = Inr (JObject fs) \<Longrightarrow> map_of fs ''detail'' = Some (JString s) \<Longrightarrow>
   error_of_response r = APIRequestError s (status r) None"
  by (simp add: error_of_response_def read_detail_def then_do_def)

lemma error_of_response_list:
  "json_result r = Inr (JObject fs) \<Longrightarrow>
   map_of fs ''detail'' = Some (JArray (map ValidationError_json vs)) \<Longrightarrow>
   error_of_response r =
     APIRequestError (join_strings '', '' (map validation_line vs)) (status r)
       (Some (JArray (map ValidationError_json vs)))"
  by (simp add: error_of_response_def read_detail_def then_do_def map_result_typed)

lemma error_of_response_no_detail:
  "json_result r = Inr (JObject fs) \<Longrightarrow> map_of fs ''detail'' = None \<Longrightarrow>
   error_of_response r = APIRequestError generic_message (status r) None"
  by (simp add: error_of_response_def read_detail_def then_do_def)

lemma error_of_response_not_json:
  "json_result r = Inl e \<Longrightarrow>
   error_of_response r =
     APIRequestError (if statusText r = [] then generic_message else statusText r) (status r) None"
  by (simp add: error_of_response_def then_do_def)

text \<open>
  C6, as stated, fails in its fallback: a 500 response whose JSON body has no \<open>detail\<close>
  is reported with the fixed message \<open>API request failed\<close>, not with the status text
  \<open>Internal Server Error\<close>; and when the body is not JSON and the status text is empty
  (as over HTTP/2) the message is again the fixed one.
\<close>

theorem C6_fallback_is_not_status_text:
  "snd (apiRequest
     (server_replies \<lparr>status = 500, statusText = ''Internal Server Error'',
        json_result = Inr (JObject [(''error'', JString ''boom'')])\<rparr>)
     ''/api/v1/workflow/execute'' post_options)
   = Inl (APIRequestError ''API request failed'' 500 None) \<and>
   snd (apiRequest
     (server_replies \<lparr>status = 502, statusText = [],
        json_result = Inl (OtherError ''Unexpected end of JSON input'')\<rparr>)
     ''/api/v1/workflow/execute'' post_options)
   = Inl (APIRequestError ''API request failed'' 502 None)"
  by (simp add: apiRequest_def server_replies_def ok_def error_of_response_def read_detail_def
      then_do_def on_catch_def generic_message_def)

text \<open>
  C6, amended: for every response with a non-success status the client throws an
  \<open>APIRequestError\<close> that carries the response's status code.  When the body is a JSON
  object whose \<open>detail\<close> is a string, the message is that string and there are no
  details.  When \<open>detail\<close> is an array of validation entries (their location numbers
  being numbers in the sense of \<open>js_number\<close>), the message joins, with a comma and a
  space, one line per entry (the elements of the entry's location path joined with a
  dot, a number among them as \<open>Number.prototype.toString\<close> prints it, then a colon, a
  space and the entry's message), and the details are the raw array.  When the body is a
  JSON object without \<open>detail\<close>, the message is the fixed \<open>API request failed\<close>.  When
  the body is not JSON, the message is the status text, or the fixed message if the
  status text is empty.
\<close>

theorem C6_error_message:
  assumes "getSession c = Inr session"
    and "fetch c (build_request c session endpoint options) = Inr r"
    and "\<not> ok r"
  shows "\<exists>m d. snd (apiRequest c endpoint options) = Inl (APIRequestError m (status r) d) \<and>
    (\<forall>fs s. json_result r = Inr (JObject fs) \<longrightarrow> map_of fs ''detail'' = Some (JString s) \<longrightarrow>
       m = s \<and> d = None) \<and>
    (\<forall>fs vs. json_result r = Inr (JObject fs) \<longrightarrow>
       map_of fs ''detail'' = Some (JArray (map ValidationError_json vs)) \<longrightarrow>
       locations_representable vs \<longrightarrow>
       m = join_strings '', '' (map validation_line vs) \<and>
       d = Some (JArray (map ValidationError_json vs))) \<and>
    (\<forall>fs. json_result r = Inr (JObject fs) \<longrightarrow> map_of fs ''detail'' = None \<longrightarrow>
       m = generic_message \<and> d = None) \<and>
    (\<forall>e. json_result r = Inl e \<longrightarrow>
       m = (if statusText r = [] then generic_message else statusText r) \<and> d = None)"
proof -
  obtain m d where md: "error_of_response r = APIRequestError m (status r) d"
    using error_of_response_shape by blast
  have res: "snd (apiRequest c endpoint options) = Inl (APIRequestError m (status r) d)"
    using apiRequest_not_ok [OF assms] md by simp
  have 1: "m = s \<and> d = None"
    if "json_result r = Inr (JObject fs)" "map_of fs ''detail'' = Some (JString s)" for fs s
    using error_of_response_string [OF that] md by simp
  have 2: "m = join_strings '', '' (map validation_line vs) \<and>
       d = Some (JArray (map ValidationError_json vs))"
    if "json_result r = Inr (JObject fs)"
      "map_of fs ''detail'' = Some (JArray (map ValidationError_json vs))" for fs vs
    using error_of_response_list [OF that] md by simp
  have 3: "m = generic_message \<and> d = None"
    if "json_result r = Inr (JObject fs)" "map_of fs ''detail'' = None" for fs
    using error_of_response_no_detail [OF that] md by simp
  have 4: "m = (if statusText r = [] then generic_message else statusText r) \<and> d = None"
    if "json_result r = Inl e" for e
    using error_of_response_not_json [OF that] md by simp
  from res 1 2 3 4 show ?thesis by blast
qed

theorem C6_error_message_witness:
  "locations_representable sample_validation_errors \<and>
   snd (apiRequest
     (server_replies \<lparr>status = 422, statusText = ''Unprocessable Entity'',
        json_result = Inr (JObject
          [(''detail'', JArray (map ValidationError_json sample_validation_errors))])\<rparr>)
     ''/api/v1/workflow/execute'' post_options)
   = Inl (APIRequestError
       (join_strings '', '' (map validation_line sample_validation_errors)) 422
       (Some (JArray (map ValidationError_json sample_validation_errors)))) \<and>
   join_strings '', '' (map validation_line sample_validation_errors)
   = ''body.content: ensure this value has at least 10 characters, query.providers.2: unexpected value''"
proof -
  let ?r = "\<lparr>status = 422, statusText = ''Unprocessable Entity'',
        json_result = Inr (JObject
          [(''detail'', JArray (map ValidationError_json sample_validation_errors))])\<rparr>"
  let ?c = "server_replies ?r"
  let ?session = "Some \<lparr>access_token = ''token-123''\<rparr>"
  have g: "getSession ?c = Inr ?session"
    by (simp add: server_replies_def)
  have f: "fetch ?c (build_request ?c ?session ''/api/v1/workflow/execute'' post_options) = Inr ?r"
    by (simp add: server_replies_def)
  have n: "\<not> ok ?r"
    by (simp add: ok_def)
  have j: "json_result ?r = Inr (JObject
          [(''detail'', JArray (map ValidationError_json sample_validation_errors))])"
    by simp
  have l: "map_of [(''detail'', JArray (map ValidationError_json sample_validation_errors))]
      ''detail'' = Some (JArray (map ValidationError_json sample_validation_errors))"
    by simp
  have p: "locations_representable sample_validation_errors"
    by code_simp
  have rendered: "join_strings '', '' (map validation_line sample_validation_errors)
   = ''body.content: ensure this value has at least 10 characters, query.providers.2: unexpected value''"
    by code_simp
  from C6_error_message [OF g f n] j l p rendered show ?thesis
    by (metis Response.select_convs(1))
qed

subsection \<open>The request wrapper: failure kinds\<close>

text \<open>
  C5, as stated, fails: the client has no decoding step.  A success response whose JSON
  body has none of the expected fields is returned as the result, and when the body of
  a success response is not JSON at all the parser's own error reaches the caller, which
  is no \<open>APIRequestError\<close> and carries no status code.
\<close>

theorem C5_no_decode_error:
  "snd (apiRequest
     (server_replies \<lparr>status = 200, statusText = ''OK'',
        json_result = Inr (JObject [(''unexpected'', JBool True)])\<rparr>)
     ''/api/v1/workflow/execute'' post_options)
   = Inr (JObject [(''unexpected'', JBool True)]) \<and>
   snd (apiRequest
     (server_replies \<lparr>status = 200, statusText = ''OK'',
        json_result = Inl (OtherError ''Unexpected end of JSON input'')\<rparr>)
     ''/api/v1/workflow/execute'' post_options)
   = Inl (OtherError ''Unexpected end of JSON input'')"
  by (simp add: apiRequest_def server_replies_def ok_def)

text \<open>
  C5, amended: once the session has been read, a network-level failure (\<open>fetch\<close>
  rejects, no response) is thrown as an \<open>APIRequestError\<close> with status code 0 and the
  failure's message (\<open>Network error\<close> when the thrown value is no error object); a
  response with a non-success status whose body is not valid JSON is thrown as an
  \<open>APIRequestError\<close> that carries the response's status code and a generic message (the
  status text, or \<open>API request failed\<close> when that is empty); and the JSON body of a
  success response is returned as it is, whatever its shape.
\<close>

theorem C5_failure_kinds:
  assumes "getSession c = Inr session"
  shows
    "(\<forall>m. fetch c (build_request c session endpoint options) = Inl (OtherError m) \<longrightarrow>
        snd (apiRequest c endpoint options) = Inl (APIRequestError m 0 None)) \<and>
     (fetch c (build_request c session endpoint options) = Inl NonError \<longrightarrow>
        snd (apiRequest c endpoint options) = Inl (APIRequestError ''Network error'' 0 None)) \<and>
     (\<forall>r e. fetch c (build_request c session endpoint options) = Inr r \<longrightarrow> \<not> ok r \<longrightarrow>
        json_result r = Inl e \<longrightarrow>
        snd (apiRequest c endpoint options)
          = Inl (APIRequestError (if statusText r = [] then generic_message else statusText r)
                  (status r) None)) \<and>
     (\<forall>r j. fetch c (build_request c session endpoint options) = Inr r \<longrightarrow> ok r \<longrightarrow>
        json_result r = Inr j \<longrightarrow>
        snd (apiRequest c endpoint options) = Inr j)"
proof (intro conjI allI impI, goal_cases)
  case (1 m)
  with assms show ?case by (simp add: apiRequest_def Let_def on_catch_def)
next
  case 2
  with assms show ?case by (simp add: apiRequest_def Let_def on_catch_def)
next
  case (3 r e)
  from apiRequest_not_ok [OF assms 3(1) 3(2)] error_of_response_not_json [OF 3(3)]
  show ?case by simp
next
  case (4 r j)
  with assms show ?case by (simp add: apiRequest_def Let_def)
qed

theorem C5_failure_kinds_witness:
  "snd (apiRequest offline ''/api/v1/workflow/execute'' post_options)
   = Inl (APIRequestError ''Failed to fetch'' 0 None) \<and>
   snd (apiRequest
     (server_replies \<lparr>status = 502, statusText = ''Bad Gateway'',
        json_result = Inl (OtherError ''Unexpected end of JSON input'')\<rparr>)
     ''/api/v1/workflow/execute'' post_options)
   = Inl (APIRequestError ''Bad Gateway'' 502 None)"
proof -
  let ?session = "Some \<lparr>access_token = ''token-123''\<rparr>"
  let ?r = "\<lparr>status = 502, statusText = ''Bad Gateway'',
        json_result = Inl (OtherError ''Unexpected end of JSON input'')\<rparr>"
  have g1: "getSession offline = Inr ?session"
    by (simp add: offline_def)
  have f1: "fetch offline (build_request offline ?session ''/api/v1/workflow/execute'' post_options)
      = Inl (OtherError ''Failed to fetch'')"
    by (simp add: offline_def)
  have g2: "getSession (server_replies ?r) = Inr ?session"
    by (simp add: server_replies_def)
  have f2: "fetch (server_replies ?r)
      (build_request (server_replies ?r) ?session ''/api/v1/workflow/execute'' post_options) = Inr ?r"
    by (simp add: server_replies_def)
  have n2: "\<not> ok ?r" by (simp add: ok_def)
  have j2: "json_result ?r = Inl (OtherError ''Unexpected end of JSON input'')" by simp
  from C5_failure_kinds [OF g1, of "''/api/v1/workflow/execute''" post_options] f1
  have a: "snd (apiRequest offline ''/api/v1/workflow/execute'' post_options)
   = Inl (APIRequestError ''Failed to fetch'' 0 None)"
    by blast
  from C5_failure_kinds [OF g2, of "''/api/v1/workflow/execute''" post_options] f2 n2 j2
  have b: "snd (apiRequest (server_replies ?r) ''/api/v1/workflow/execute'' post_options)
   = Inl (APIRequestError (if statusText ?r = [] then generic_message else statusText ?r)
          (status ?r) None)"
    by blast
  from a b show ?thesis by simp
qed

subsection \<open>The request wrapper: the session and the bearer header\<close>

lemma map_of_assign_all_absent:
  "map_of props k = None \<Longrightarrow> map_of (assign_all props target) k = map_of target k"
  unfolding assign_all_def
proof (induction props arbitrary: target)
  case Nil
  show ?case by simp
next
  case (Cons p ps)
  from Cons.prems have k: "fst p \<noteq> k" and rest: "map_of ps k = None"
    by (cases p; simp split: if_splits)+
  have "map_of (foldl (\<lambda>h kv. AList.update (fst kv) (snd kv) h)
          (AList.update (fst p) (snd p) target) ps) k
      = map_of (AList.update (fst p) (snd p) target) k"
    by (rule Cons.IH [OF rest])
  also have "\<dots> = map_of target k"
    using k by (simp add: update_conv')
  finally show ?case by simp
qed

lemma headers_with_token:
  "access_token s \<noteq> [] \<Longrightarrow>
   map_of (request_headers (Some s) options) ''Authorization''
     = Some (''Bearer '' @ access_token s)"
  by (simp add: request_headers_def Let_def update_conv')

lemma headers_without_token:
  assumes "session = None \<or> (\<exists>s. session = Some s \<and> access_token s = [])"
    and "no_caller_authorization options"
  shows "map_of (request_headers session options) ''Authorization'' = None"
proof -
  let ?hs = "case init_headers options of None \<Rightarrow> [] | Some hs \<Rightarrow> hs"
  have "map_of ?hs ''Authorization'' = None"
    using assms(2) by (simp add: no_caller_authorization_def split: option.splits)
  then have "map_of (assign_all ?hs [(''Content-Type'', ''application/json'')]) ''Authorization''
      = None"
    by (simp add: map_of_assign_all_absent)
  with assms(1) show ?thesis
    by (auto simp: request_headers_def Let_def)
qed

lemma apiRequest_effects_session:
  "getSession c = Inr session \<Longrightarrow>
   fst (apiRequest c endpoint options)
     = [GetSession, Fetch (build_request c session endpoint options)]"
  by (simp add: apiRequest_def Let_def split: sum.splits)

lemma apiRequest_effects_no_session:
  "getSession c = Inl e \<Longrightarrow> fst (apiRequest c endpoint options) = [GetSession]"
  by (simp add: apiRequest_def)

lemma apiRequest_rejected:
  assumes "getSession c = Inr session"
    and "fetch c (build_request c session endpoint options) = Inr r"
    and "\<not> ok r"
  shows "\<exists>m d. snd (apiRequest c endpoint options) = Inl (APIRequestError m (status r) d)"
proof -
  have "snd (apiRequest c endpoint options) = Inl (error_of_response r)"
    using apiRequest_not_ok [OF assms] by simp
  with error_of_response_shape [of r] show ?thesis by auto
qed

text \<open>
  C9: every call reads the session first, and a call whose session read fails issues no
  request.  Otherwise exactly one request follows the session read.  With a session
  that has a non-empty access token the request carries \<open>Authorization: Bearer <token>\<close>;
  with no session (or a session whose token is empty), and no such header passed in by
  the caller, the request has no \<open>Authorization\<close> header at all.  A response with a
  non-success status, such as the server's rejection of the unauthenticated request, is
  thrown as an \<open>APIRequestError\<close> carrying the response's status code.  The two hooks
  of the client pass no \<open>Authorization\<close> header of their own.
\<close>

theorem C9_session_then_authorization:
  "(\<forall>e. getSession c = Inl e \<longrightarrow> fst (apiRequest c endpoint options) = [GetSession]) \<and>
   (\<forall>session. getSession c = Inr session \<longrightarrow>
      fst (apiRequest c endpoint options)
        = [GetSession, Fetch (build_request c session endpoint options)] \<and>
      (\<forall>s. session = Some s \<longrightarrow> access_token s \<noteq> [] \<longrightarrow>
         map_of (headers (build_request c session endpoint options)) ''Authorization''
           = Some (''Bearer '' @ access_token s)) \<and>
      ((session = None \<or> (\<exists>s. session = Some s \<and> access_token s = [])) \<longrightarrow>
         no_caller_authorization options \<longrightarrow>
         map_of (headers (build_request c session endpoint options)) ''Authorization'' = None) \<and>
      (\<forall>r. fetch c (build_request c session endpoint options) = Inr r \<longrightarrow> \<not> ok r \<longrightarrow>
         (\<exists>m d. snd (apiRequest c endpoint options) = Inl (APIRequestError m (status r) d)))) \<and>
   no_caller_authorization (execute_options v) \<and>
   no_caller_authorization (compare_options i)"
proof (intro conjI allI impI, goal_cases)
  case (1 e)
  then show ?case by (rule apiRequest_effects_no_session)
next
  case (2 session)
  then show ?case by (rule apiRequest_effects_session)
next
  case (3 session s)
  then show ?case by (simp add: build_request_def headers_with_token)
next
  case (4 session)
  from headers_without_token [OF 4(2) 4(3)] show ?case by (simp add: build_request_def)
next
  case (5 session r)
  from apiRequest_rejected [OF 5(1) 5(2) 5(3)] show ?case .
next
  case 6
  show ?case by (simp add: no_caller_authorization_def execute_options_def)
next
  case 7
  show ?case by (simp add: no_caller_authorization_def compare_options_def)
qed

theorem C9_session_then_authorization_witness:
  "fst (apiRequest (guarded_server None) ''/api/v1/workflow/execute'' post_options)
   = [GetSession,
      Fetch \<lparr>url = ''https://api.agentops.studio/api/v1/workflow/execute'',
             request_method = Some ''POST'', request_body = Some (JObject []),
             headers = [(''Content-Type'', ''application/json'')]\<rparr>] \<and>
   (\<exists>m d. snd (apiRequest (guarded_server None) ''/api/v1/workflow/execute'' post_options)
      = Inl (APIRequestError m 401 d)) \<and>
   map_of (headers (build_request (guarded_server (Some \<lparr>access_token = ''token-123''\<rparr>))
        (Some \<lparr>access_token = ''token-123''\<rparr>) ''/api/v1/workflow/execute'' post_options))
      ''Authorization'' = Some ''Bearer token-123''"
proof -
  let ?ep = "''/api/v1/workflow/execute''"
  let ?s = "\<lparr>access_token = ''token-123''\<rparr>"
  let ?r = "\<lparr>status = 401, statusText = ''Unauthorized'',
             json_result = Inr (JObject [(''detail'', JString ''Not authenticated'')])\<rparr>"
  have g: "getSession (guarded_server None) = Inr None"
    by (simp add: guarded_server_def)
  have n: "no_caller_authorization post_options"
    by (simp add: no_caller_authorization_def post_options_def)
  have b: "build_request (guarded_server None) None ?ep post_options
      = \<lparr>url = ''https://api.agentops.studio/api/v1/workflow/execute'',
         request_method = Some ''POST'', request_body = Some (JObject []),
         headers = [(''Content-Type'', ''application/json'')]\<rparr>"
    by (simp add: build_request_def guarded_server_def post_options_def request_headers_def
        assign_all_def API_URL_def)
  have f: "fetch (guarded_server None) (build_request (guarded_server None) None ?ep post_options)
      = Inr ?r"
    unfolding b by (simp add: guarded_server_def)
  have k: "\<not> ok ?r" by (simp add: ok_def)
  from C9_session_then_authorization [of "guarded_server None" ?ep post_options] g
  have 1: "fst (apiRequest (guarded_server None) ?ep post_options)
        = [GetSession, Fetch (build_request (guarded_server None) None ?ep post_options)]"
    and 2: "\<forall>r. fetch (guarded_server None)
          (build_request (guarded_server None) None ?ep post_options) = Inr r \<longrightarrow> \<not> ok r \<longrightarrow>
         (\<exists>m d. snd (apiRequest (guarded_server None) ?ep post_options)
            = Inl (APIRequestError m (status r) d))"
    by blast+
  from 2 f k have 3: "\<exists>m d. snd (apiRequest (guarded_server None) ?ep post_options)
      = Inl (APIRequestError m 401 d)"
    by (metis Response.select_convs(1))
  have g2: "getSession (guarded_server (Some ?s)) = Inr (Some ?s)"
    by (simp add: guarded_server_def)
  have t: "access_token ?s \<noteq> []" by simp
  from C9_session_then_authorization [of "guarded_server (Some ?s)" ?ep post_options] g2 t
  have 4: "map_of (headers (build_request (guarded_server (Some ?s)) (Some ?s) ?ep post_options))
      ''Authorization'' = Some (''Bearer '' @ access_token ?s)"
    by blast
  from 1 3 4 show ?thesis unfolding b by simp
qed

subsection \<open>The wizard\<close>

lemma run_snoc: "run (events @ [e]) w = handle e (run events w)"
  by (simp add: run_def)

lemma handle_results_hold_success:
  "results_hold_success w \<Longrightarrow> results_hold_success (handle e w)"
  by (cases e)
    (auto simp: results_hold_success_def onSuccess_def onComplete_def onError_def
      onCancel_def Let_def
      split: option.splits sum.splits mutation_status.splits if_splits)

lemma reachable_results_hold_success: "results_hold_success (run events initial)"
proof (induction events rule: rev_induct)
  case Nil
  show ?case by (simp add: run_def results_hold_success_def initial_def)
next
  case (snoc e events)
  then show ?case by (simp add: run_snoc handle_results_hold_success)
qed

lemma handle_pending_only_in_processing:
  "pending_only_in_processing w \<Longrightarrow> pending_only_in_processing (handle e w)"
  by (cases e)
    (auto simp: pending_only_in_processing_def onSuccess_def onComplete_def onError_def
      onCancel_def Let_def
      split: option.splits sum.splits mutation_status.splits if_splits)

lemma reachable_pending_only_in_processing: "pending_only_in_processing (run events initial)"
proof (induction events rule: rev_induct)
  case Nil
  show ?case by (simp add: run_def pending_only_in_processing_def initial_def)
next
  case (snoc e events)
  then show ?case by (simp add: run_snoc handle_pending_only_in_processing)
qed

lemma in_flight_eq:
  "in_flight =
     \<lparr>step = step_processing, formData = submitted_formData, result = None,
      executeMutation = pending submitted_formData, toasts = []\<rparr>"
  by (simp add: in_flight_def run_def initial_def initial_formData_def sample_values_def
      inputSchema_def onSubmit_def or_else_def truthy_def submitted_formData_def Let_def)

lemma approved_result_success: "success approved_result"
  by (simp add: approved_result_def sample_result_def)

lemma rejected_result_fields:
  "\<not> success rejected_result"
  "error rejected_result = Some ''Self-check rejected workflow''"
  "rejection_reason (self_check rejected_result)
     = Some ''Overall accuracy too low (0.65 < 0.7 threshold)''"
  by (simp_all add: rejected_result_def sample_result_def)

text \<open>
  C10: in every state a session can reach, being in the results step implies that a
  result is held and that its \<open>success\<close> flag is true; and a response whose flag is
  false never moves the session (the step, the form data and the result stay as they
  were), so the results view never receives a failed or absent result.
\<close>

theorem C10_results_hold_success:
  "(step (run events initial) = step_results \<longrightarrow>
      (\<exists>r. result (run events initial) = Some r \<and> success r)) \<and>
   (\<not> success d \<longrightarrow> visible (handle (Settled (Inr d)) w) = visible w)"
proof -
  have "results_hold_success (run events initial)"
    by (rule reachable_results_hold_success)
  then have "step (run events initial) = step_results \<longrightarrow>
      (\<exists>r. result (run events initial) = Some r \<and> success r)"
    by (auto simp: results_hold_success_def split: option.splits)
  moreover have "\<not> success d \<longrightarrow> visible (handle (Settled (Inr d)) w) = visible w"
    by (auto simp: visible_def onSuccess_def split: mutation_status.splits)
  ultimately show ?thesis by blast
qed

theorem C10_results_hold_success_witness:
  "step (run [SubmitInput sample_values, GenerateWorkflow google (7 / 10),
              Settled (Inr approved_result)] initial) = step_results \<and>
   (\<exists>r. result (run [SubmitInput sample_values, GenerateWorkflow google (7 / 10),
              Settled (Inr approved_result)] initial) = Some r \<and> success r) \<and>
   \<not> success rejected_result \<and>
   visible (handle (Settled (Inr rejected_result)) in_flight) = visible in_flight"
proof -
  let ?events = "[SubmitInput sample_values, GenerateWorkflow google (7 / 10),
              Settled (Inr approved_result)]"
  have "run ?events initial = handle (Settled (Inr approved_result)) in_flight"
    by (simp add: run_def in_flight_def)
  then have s: "step (run ?events initial) = step_results"
    by (simp add: in_flight_eq onSuccess_def onComplete_def approved_result_success)
  from s rejected_result_fields(1)
    C10_results_hold_success [of ?events rejected_result in_flight]
  show ?thesis by blast
qed





lemma cancel_disabled_while_pending:
  "step w = step_processing \<Longrightarrow> executeMutation w = pending v \<Longrightarrow> handle ClickCancel w = w"
  by simp




text \<open>
  C3, as stated, fails for a self-check rejection: the response is shown as an error
  toast with the text of its \<open>error\<close> field (or \<open>Workflow failed\<close> when that is absent);
  the rejection reason is rendered nowhere and no edit or retry is offered, the session
  just stays in the processing step.
\<close>

theorem C3_rejection_reason_not_rendered:
  "rejection_reason (self_check rejected_result)
     = Some ''Overall accuracy too low (0.65 < 0.7 threshold)'' \<and>
   toasts (handle (Settled (Inr rejected_result)) in_flight)
     = [toast_error ''Self-check rejected workflow''] \<and>
   toasts (handle (Settled (Inr (rejected_result\<lparr>error := None\<rparr>))) in_flight)
     = [toast_error ''Workflow failed''] \<and>
   visible (handle (Settled (Inr rejected_result)) in_flight)
     = (step_processing, submitted_formData, None)"
  by (simp add: in_flight_eq onSuccess_def rejected_result_fields or_else_def visible_def)

text \<open>
  C3, amended: when the pending execution settles, a result with \<open>success == true\<close>
  is stored and the session enters the results step, with a success toast.  A result
  with \<open>success == false\<close> leaves the step, the form data and the result as they were
  and shows one error toast whose text is the result's \<open>error\<close>, or \<open>Workflow failed\<close>
  when \<open>error\<close> is absent or empty; the self-check verdict and its rejection reason
  have no influence on what is shown; the Cancel button then leads back to the config
  step.  A thrown error shows one error toast with the error's message, or \<open>Failed to
  execute workflow\<close> when it has none, and the Go Back button leads back to the config
  step.
\<close>

theorem C3_outcome_handling:
  assumes "step w = step_processing" and "executeMutation w = pending v"
  shows
    "(success d \<longrightarrow>
        visible (handle (Settled (Inr d)) w) = (step_results, formData w, Some d) \<and>
        toasts (handle (Settled (Inr d)) w)
          = toasts w @ [toast_success ''Workflow completed successfully!'']) \<and>
     (\<not> success d \<longrightarrow>
        visible (handle (Settled (Inr d)) w) = visible w \<and>
        toasts (handle (Settled (Inr d)) w)
          = toasts w @ [toast_error (or_else (error d) ''Workflow failed'')] \<and>
        toasts (handle (Settled (Inr (d\<lparr>self_check := sc\<rparr>))) w)
          = toasts (handle (Settled (Inr d)) w) \<and>
        step (handle ClickCancel (handle (Settled (Inr d)) w)) = step_config) \<and>
     visible (handle (Settled (Inl e)) w) = visible w \<and>
     toasts (handle (Settled (Inl e)) w)
       = toasts w @ [toast_error (or_else (message_of e) ''Failed to execute workflow'')] \<and>
     step (handle ClickGoBack (handle (Settled (Inl e)) w)) = step_config"
  using assms
  by (simp add: visible_def onSuccess_def onComplete_def onError_def onCancel_def)

theorem C3_outcome_handling_witness:
  "visible (handle (Settled (Inr approved_result)) in_flight)
     = (step_results, submitted_formData, Some approved_result) \<and>
   toasts (handle (Settled (Inr rejected_result)) in_flight)
     = [toast_error ''Self-check rejected workflow''] \<and>
   step (handle ClickCancel (handle (Settled (Inr rejected_result)) in_flight)) = step_config \<and>
   toasts (handle (Settled (Inl (APIRequestError ''Failed to fetch'' 0 None))) in_flight)
     = [toast_error ''Failed to fetch'']"
proof -
  have q: "step in_flight = step_processing"
    "executeMutation in_flight = pending submitted_formData"
    "formData in_flight = submitted_formData" "toasts in_flight = []"
    by (simp_all add: in_flight_eq)
  from C3_outcome_handling [OF q(1) q(2), of approved_result undefined undefined]
    C3_outcome_handling [OF q(1) q(2), of rejected_result "self_check rejected_result"
      "APIRequestError ''Failed to fetch'' 0 None"]
    approved_result_success rejected_result_fields q
  show ?thesis
    by (simp add: or_else_def message_of_def)
qed

subsection \<open>Query strings: reading back what was written\<close>


























subsection \<open>Numbers: reading back what was printed\<close>





































subsection \<open>The execute request\<close>














subsection \<open>Attempts of one execution\<close>










end
